theory Spec2Isabelle
  imports Main
begin

section \<open>JavaScript values\<close>

text \<open>
  The adapter in \<^verbatim>\<open>src/BasicMainConnection.ts\<close> is modelled by a shallow embedding.
  Strings are lists of 8-bit characters, each standing for one code unit; the model
  covers the texts whose code units are all below 256. Numbers are the integers. An
  object is the list of its own properties, in the order in which \<^verbatim>\<open>Object.keys\<close>
  enumerates them; it is a plain object, whose prototype is \<^verbatim>\<open>Object.prototype\<close>. An
  error is its message: its class (\<^verbatim>\<open>Error\<close>, \<^verbatim>\<open>TypeError\<close>, \<^verbatim>\<open>RangeError\<close>) is
  not kept. A promise that rejects, and a \<^verbatim>\<open>throw\<close>, are the left injection of a sum;
  every \<^verbatim>\<open>async\<close> function of the source is the function of its settled result.
\<close>

datatype error = Error string

datatype jsval =
    Undefined
  | Null
  | Boolean bool
  | Number int
  | String string
  | Object "(string \<times> jsval) list"

text \<open>The truthiness test that \<^verbatim>\<open>!value\<close> and \<^verbatim>\<open>if (value)\<close> apply.\<close>

fun truthy :: "jsval \<Rightarrow> bool" where
  "truthy Undefined = False"
| "truthy Null = False"
| "truthy (Boolean b) = b"
| "truthy (Number n) = (n \<noteq> 0)"
| "truthy (String s) = (s \<noteq> [])"
| "truthy (Object ps) = True"

text \<open>Reading \<^verbatim>\<open>rows[i]\<close> of a dense array: outside the array the read is \<^verbatim>\<open>undefined\<close>.\<close>

definition array_get :: "jsval list \<Rightarrow> int \<Rightarrow> jsval" where
  "array_get xs i = (if 0 \<le> i \<and> nat i < length xs then xs ! nat i else Undefined)"

section \<open>The in-memory cursor\<close>

text \<open>
  The closure of \<^verbatim>\<open>makeInMemoryCursor\<close> captures \<^verbatim>\<open>rows\<close> (absent once dropped) and
  \<^verbatim>\<open>currentIndex\<close>; each method takes the captured state and returns it updated.
\<close>

record cursor =
  rows :: "jsval list option"
  currentIndex :: int

record iter_result =
  it_done :: bool
  it_value :: jsval

definition makeInMemoryCursor :: "jsval list option \<Rightarrow> cursor" where
  "makeInMemoryCursor rs = \<lparr>rows = rs, currentIndex = - 1\<rparr>"

definition cursor_next :: "cursor \<Rightarrow> iter_result \<times> cursor" where
  "cursor_next c =
     (case rows c of
        None \<Rightarrow> (\<lparr>it_done = True, it_value = Undefined\<rparr>, c)
      | Some rs \<Rightarrow>
          (let i = currentIndex c + 1;
               v = array_get rs i;
               rs' = (if \<not> truthy v then None else Some rs)
           in (\<lparr>it_done = (rs' = None), it_value = v\<rparr>, c\<lparr>rows := rs', currentIndex := i\<rparr>)))"

definition cursor_return :: "cursor \<Rightarrow> iter_result \<times> cursor" where
  "cursor_return c = (\<lparr>it_done = True, it_value = Undefined\<rparr>, c\<lparr>rows := None\<rparr>)"

definition cursor_throw :: "error \<Rightarrow> cursor \<Rightarrow> (error + iter_result) \<times> cursor" where
  "cursor_throw err c = (Inl err, c\<lparr>rows := None\<rparr>)"

text \<open>Calling \<^verbatim>\<open>next()\<close> repeatedly: the results in call order, and the final state.\<close>

fun nexts :: "nat \<Rightarrow> cursor \<Rightarrow> iter_result list \<times> cursor" where
  "nexts 0 c = ([], c)"
| "nexts (Suc n) c =
     (let (r, c') = cursor_next c; (rs, c'') = nexts n c' in (r # rs, c''))"

text \<open>The operations a consumer may apply to a cursor without raising.\<close>

datatype cursor_op = Next | Return

fun cursor_apply :: "cursor_op \<Rightarrow> cursor \<Rightarrow> iter_result \<times> cursor" where
  "cursor_apply Next c = cursor_next c"
| "cursor_apply Return c = cursor_return c"

fun cursor_run :: "cursor_op list \<Rightarrow> cursor \<Rightarrow> iter_result list \<times> cursor" where
  "cursor_run [] c = ([], c)"
| "cursor_run (opr # oprs) c =
     (let (r, c') = cursor_apply opr c; (rs, c'') = cursor_run oprs c' in (r # rs, c''))"

section \<open>Strings\<close>

text \<open>Decimal rendering of a number inside a template literal.\<close>

definition digit_char :: "nat \<Rightarrow> char" where
  "digit_char d = char_of (48 + d)"

fun show_nat :: "nat \<Rightarrow> string" where
  "show_nat n = (if n < 10 then [digit_char n] else show_nat (n div 10) @ [digit_char (n mod 10)])"

declare show_nat.simps [simp del]

definition show_int :: "int \<Rightarrow> string" where
  "show_int i = (if i < 0 then CHR ''-'' # show_nat (nat (- i)) else show_nat (nat i))"

text \<open>\<^verbatim>\<open>Array.prototype.join\<close> on an array of strings.\<close>

fun join :: "string \<Rightarrow> string list \<Rightarrow> string" where
  "join sep [] = []"
| "join sep [x] = x"
| "join sep (x # y # ys) = x @ sep @ join sep (y # ys)"

text \<open>
  \<^verbatim>\<open>toLowerCase\<close> on the code units below 256: the letters \<^verbatim>\<open>A\<close> to \<^verbatim>\<open>Z\<close> and the
  capital letters U+00C0 to U+00DE (U+00D7 is the multiplication sign) move up by 32;
  every other code unit stays.
\<close>

definition toLowerChar :: "char \<Rightarrow> char" where
  "toLowerChar c =
     (let n = (of_char c :: nat)
      in if (65 \<le> n \<and> n \<le> 90) \<or> (192 \<le> n \<and> n \<le> 222 \<and> n \<noteq> 215)
         then char_of (n + 32) else c)"

definition toLowerCase :: "string \<Rightarrow> string" where
  "toLowerCase s = map toLowerChar s"

text \<open>
  \<^verbatim>\<open>toUpperCase\<close> on the code units below 256: the letters \<^verbatim>\<open>a\<close> to \<^verbatim>\<open>z\<close> and the
  small letters U+00E0 to U+00FE (U+00F7 is the division sign) move down by 32; the
  sharp s U+00DF becomes \<^verbatim>\<open>SS\<close>; the micro sign U+00B5 and the y with diaeresis
  U+00FF become U+039C and U+0178, which are not below 256: the result is then \<open>None\<close>,
  a text that no string of the model equals. Every other code unit stays.
\<close>

definition toUpperChar :: "char \<Rightarrow> string option" where
  "toUpperChar c =
     (let n = (of_char c :: nat)
      in if (97 \<le> n \<and> n \<le> 122) \<or> (224 \<le> n \<and> n \<le> 254 \<and> n \<noteq> 247)
         then Some [char_of (n - 32)]
         else if n = 223 then Some ''SS''
         else if n = 181 \<or> n = 255 then None
         else Some [c])"

fun toUpperCase :: "string \<Rightarrow> string option" where
  "toUpperCase [] = Some []"
| "toUpperCase (c # cs) =
     (case toUpperChar c of
        None \<Rightarrow> None
      | Some u \<Rightarrow> (case toUpperCase cs of None \<Rightarrow> None | Some us \<Rightarrow> Some (u @ us)))"

text \<open>
  The canonical form under which a regular expression with flag \<^verbatim>\<open>i\<close> compares two
  code units: the upper case of the code unit when that is one code unit, except that a
  code unit from 128 on is never identified with one below 128; otherwise the code unit
  itself. U+00B5 and U+00FF, whose upper case is not below 256, are kept: no other code
  unit below 256 has their canonical form.
\<close>

definition canonicalize :: "char \<Rightarrow> char" where
  "canonicalize c =
     (case toUpperChar c of
        Some [u] \<Rightarrow> if 128 \<le> (of_char c :: nat) \<and> (of_char u :: nat) < 128 then c else u
      | _ \<Rightarrow> c)"

text \<open>
  The characters \<^verbatim>\<open>\s\<close> matches among the code units below 256: tab, line feed,
  vertical tab, form feed, carriage return, space and the no-break space.
\<close>

definition is_space :: "char \<Rightarrow> bool" where
  "is_space c = ((of_char c :: nat) \<in> {9, 10, 11, 12, 13, 32, 160})"

section \<open>The regular expression of the rewriter\<close>

text \<open>
  A backtracking matcher for the constructs \<^verbatim>\<open>insertRegexp\<close> uses. A character class is a
  list of atoms, possibly negated. Literals compare without regard to case (flag
  \<^verbatim>\<open>i\<close>). The matcher returns every way a pattern can match a prefix of the input, in the
  order in which a backtracking engine tries them: a greedy quantifier tries the longest
  repetition first, an optional group tries to match before it tries to be skipped. A
  state is the text of capture group 1 so far and the input that is left.
\<close>

datatype atom = WhiteSpace | NonWhiteSpace | Ch char

record cclass =
  negated :: bool
  atoms :: "atom list"

fun atom_matches :: "atom \<Rightarrow> char \<Rightarrow> bool" where
  "atom_matches WhiteSpace c = is_space c"
| "atom_matches NonWhiteSpace c = (\<not> is_space c)"
| "atom_matches (Ch d) c = (canonicalize c = canonicalize d)"

definition in_class :: "cclass \<Rightarrow> char \<Rightarrow> bool" where
  "in_class k c = (negated k \<noteq> list_ex (\<lambda>a. atom_matches a c) (atoms k))"

datatype rx =
    Lit string
  | Star cclass
  | Plus cclass
  | Capture rx
  | Optional rx
  | Seq "rx list"

type_synonym mstate = "string option \<times> string"

fun lit_rest :: "string \<Rightarrow> string \<Rightarrow> string option" where
  "lit_rest [] s = Some s"
| "lit_rest (d # ds) [] = None"
| "lit_rest (d # ds) (c # cs) = (if canonicalize c = canonicalize d then lit_rest ds cs else None)"

fun star_rests :: "cclass \<Rightarrow> string \<Rightarrow> string list" where
  "star_rests k [] = [[]]"
| "star_rests k (c # cs) = (if in_class k c then star_rests k cs else []) @ [c # cs]"

fun plus_rests :: "cclass \<Rightarrow> string \<Rightarrow> string list" where
  "plus_rests k [] = []"
| "plus_rests k (c # cs) = (if in_class k c then star_rests k cs else [])"

fun rx_match :: "rx \<Rightarrow> mstate \<Rightarrow> mstate list" where
  "rx_match (Lit l) (g, s) = (case lit_rest l s of None \<Rightarrow> [] | Some s' \<Rightarrow> [(g, s')])"
| "rx_match (Star k) (g, s) = map (Pair g) (star_rests k s)"
| "rx_match (Plus k) (g, s) = map (Pair g) (plus_rests k s)"
| "rx_match (Capture r) (g, s) =
     map (\<lambda>(g', s'). (Some (take (length s - length s') s), s')) (rx_match r (g, s))"
| "rx_match (Optional r) (g, s) = rx_match r (g, s) @ [(g, s)]"
| "rx_match (Seq rs) (g, s) =
     foldl (\<lambda>sts r. concat (map (\<lambda>st. rx_match r st) sts)) [(g, s)] rs"

text \<open>
  \<^verbatim>\<open>exec\<close> of a pattern anchored at both ends (\<^verbatim>\<open>^\<close> ... \<^verbatim>\<open>$\<close>, no flag \<^verbatim>\<open>g\<close> or
  \<^verbatim>\<open>m\<close>): the first way of matching that consumes the whole input. The result is
  \<^verbatim>\<open>null\<close> (\<open>None\<close>) or the match array, of which only element 1 is kept.
\<close>

definition rx_exec :: "rx \<Rightarrow> string \<Rightarrow> string option option" where
  "rx_exec r s =
     (case filter (\<lambda>(g, rest). rest = []) (rx_match r (None, s)) of
        [] \<Rightarrow> None
      | (g, rest) # others \<Rightarrow> Some g)"

definition ws :: cclass where
  "ws = \<lparr>negated = False, atoms = [WhiteSpace]\<rparr>"

definition insertRegexp :: rx where
  "insertRegexp = Seq [
     Star ws, Lit ''insert'', Plus ws, Lit ''into'', Plus ws,
     Capture (Plus \<lparr>negated = True, atoms = [WhiteSpace, Ch CHR ''('']\<rparr>),
     Star ws,
     Optional (Seq [Lit ''('', Plus \<lparr>negated = True, atoms = [Ch CHR '')'']\<rparr>, Lit '')'']),
     Star ws, Lit ''values'', Star ws,
     Lit ''('', Star \<lparr>negated = False, atoms = [WhiteSpace, NonWhiteSpace]\<rparr>, Lit '')'',
     Star ws]"

section \<open>The insert-returning rewriter\<close>

text \<open>
  Modelled from the spec: the type \<^verbatim>\<open>LadcPgOptions\<close> of \<^verbatim>\<open>./exported-definitions\<close>,
  which is not among the sources. The spec gives its three options: \<^verbatim>\<open>autoincMapping\<close>,
  a mapping from table name to identifier column name, and the flags
  \<^verbatim>\<open>useReturningAll\<close> and \<^verbatim>\<open>inMemoryCursor\<close> (an absent flag is \<open>False\<close>).
\<close>

record LadcPgOptions =
  autoincMapping :: "(string \<times> string) list option"
  useReturningAll :: bool
  inMemoryCursor :: bool

text \<open>A value of type \<^verbatim>\<open>string | undefined\<close> is truthy when it is a non-empty string.\<close>

fun truthy_str :: "string option \<Rightarrow> bool" where
  "truthy_str None = False"
| "truthy_str (Some s) = (s \<noteq> [])"

text \<open>The text a template literal or a property key makes of \<^verbatim>\<open>string | undefined\<close>.\<close>

fun to_text :: "string option \<Rightarrow> string" where
  "to_text None = ''undefined''"
| "to_text (Some s) = s"

text \<open>
  \<^verbatim>\<open>options.autoincMapping[insertTable]\<close> reads the mapping's own entry for the key and,
  when it has none, what the mapping inherits from \<^verbatim>\<open>Object.prototype\<close>: a function for
  eleven names, and for \<^verbatim>\<open>__proto__\<close> the prototype itself. The sources only test such
  a value for truth and convert it to a string, so it is modelled by the text the
  conversion gives (as Node prints it); it is truthy, and so is its text.
\<close>

definition object_prototype_functions :: "string list" where
  "object_prototype_functions =
     [''__defineGetter__'', ''__defineSetter__'', ''hasOwnProperty'', ''__lookupGetter__'',
      ''__lookupSetter__'', ''isPrototypeOf'', ''propertyIsEnumerable'', ''toString'',
      ''valueOf'', ''toLocaleString'']"

definition inherited_text :: "string \<Rightarrow> string option" where
  "inherited_text k =
     (if k = ''__proto__'' then Some ''[object Object]''
      else if k = ''constructor'' then Some ''function Object() { [native code] }''
      else if k \<in> set object_prototype_functions
        then Some (''function '' @ k @ ''() { [native code] }'')
      else None)"

definition mapping_get :: "(string \<times> string) list \<Rightarrow> string \<Rightarrow> string option" where
  "mapping_get m k = (case map_of m k of Some v \<Rightarrow> Some v | None \<Rightarrow> inherited_text k)"

record rewritten =
  sql :: string
  insertTable :: "string option"
  idColumnName :: "string option"

definition addReturningToInsert :: "string \<Rightarrow> LadcPgOptions \<Rightarrow> rewritten" where
  "addReturningToInsert sql0 options =
     (case rx_exec insertRegexp sql0 of
        None \<Rightarrow> \<lparr>sql = sql0, insertTable = None, idColumnName = None\<rparr>
      | Some table \<Rightarrow>
          (let idCol = (case autoincMapping options of
                          None \<Rightarrow> None
                        | Some m \<Rightarrow> mapping_get m (to_text table));
               sql1 = (if truthy_str idCol then sql0 @ '' returning '' @ to_text idCol
                       else if useReturningAll options then sql0 @ '' returning *''
                       else sql0)
           in \<lparr>sql = sql1, insertTable = table, idColumnName = idCol\<rparr>))"

section \<open>Parameters\<close>

text \<open>
  \<^verbatim>\<open>SqlParameters\<close> is an array or an object keyed by name. An array may have holes
  (\<open>None\<close>): assigning beyond its end leaves holes behind, a hole reads as
  \<^verbatim>\<open>undefined\<close>, and \<^verbatim>\<open>forEach\<close> skips it. An object is the list of its own properties
  in insertion order.
\<close>

datatype SqlParameters =
    Positional "jsval option list"
  | Named "(string \<times> jsval) list"

definition array_read :: "jsval option list \<Rightarrow> int \<Rightarrow> jsval" where
  "array_read xs i =
     (if 0 \<le> i \<and> nat i < length xs
      then (case xs ! nat i of None \<Rightarrow> Undefined | Some v \<Rightarrow> v)
      else Undefined)"

definition array_set :: "jsval option list \<Rightarrow> nat \<Rightarrow> jsval \<Rightarrow> jsval option list" where
  "array_set xs i v =
     (if i < length xs then xs[i := Some v]
      else xs @ replicate (i - length xs) None @ [Some v])"

fun set_prop :: "string \<Rightarrow> jsval \<Rightarrow> (string \<times> jsval) list \<Rightarrow> (string \<times> jsval) list" where
  "set_prop k v [] = [(k, v)]"
| "set_prop k v ((k', v') # ps) =
     (if k' = k then (k, v) # ps else (k', v') # set_prop k v ps)"

definition prop_get :: "(string \<times> jsval) list \<Rightarrow> string \<Rightarrow> jsval" where
  "prop_get ps k = (case map_of ps k of None \<Rightarrow> Undefined | Some v \<Rightarrow> v)"

text \<open>\<^verbatim>\<open>[...params1]\<close>: the copy is dense, a hole becomes \<^verbatim>\<open>undefined\<close>.\<close>

definition spread_array :: "jsval option list \<Rightarrow> jsval option list" where
  "spread_array xs = map (\<lambda>x. Some (case x of None \<Rightarrow> Undefined | Some v \<Rightarrow> v)) xs"

text \<open>\<^verbatim>\<open>p2.forEach((val, index) => result[index] = val)\<close>, from index \<open>i\<close> on.\<close>

fun forEach_assign :: "nat \<Rightarrow> jsval option list \<Rightarrow> jsval option list \<Rightarrow> jsval option list" where
  "forEach_assign i [] result = result"
| "forEach_assign i (None # p2) result = forEach_assign (Suc i) p2 result"
| "forEach_assign i (Some v # p2) result = forEach_assign (Suc i) p2 (array_set result i v)"

text \<open>\<^verbatim>\<open>{...params1, ...params2}\<close>: the properties are copied in order into a new object.\<close>

definition spread_objects ::
  "(string \<times> jsval) list \<Rightarrow> (string \<times> jsval) list \<Rightarrow> (string \<times> jsval) list" where
  "spread_objects a b = foldl (\<lambda>obj (k, v). set_prop k v obj) [] (a @ b)"

fun mergeParams :: "SqlParameters option \<Rightarrow> SqlParameters option \<Rightarrow> error + SqlParameters option" where
  "mergeParams None params2 = Inr params2"
| "mergeParams (Some p1) None = Inr (Some p1)"
| "mergeParams (Some (Positional a)) (Some (Named b)) =
     Inl (Error ''Cannot merge named parameters with positioned parameters'')"
| "mergeParams (Some (Named a)) (Some (Positional b)) =
     Inl (Error ''Cannot merge named parameters with positioned parameters'')"
| "mergeParams (Some (Positional a)) (Some (Positional b)) =
     Inr (Some (Positional (forEach_assign 0 b (spread_array a))))"
| "mergeParams (Some (Named a)) (Some (Named b)) = Inr (Some (Named (spread_objects a b)))"

fun toPositionalParameters :: "SqlParameters option \<Rightarrow> error + jsval option list option" where
  "toPositionalParameters None = Inr None"
| "toPositionalParameters (Some (Positional a)) = Inr (Some a)"
| "toPositionalParameters (Some (Named b)) = Inl (Error ''Named parameters are not implemented'')"

section \<open>The engine session\<close>

text \<open>
  The \<^verbatim>\<open>pg\<close> client is outside the sources and is a parameter of the model: a function
  that answers the queries received so far, the last being the current one, and the list
  of the queries received. A row of a result is an object keyed by column name.
\<close>

type_synonym row = "(string \<times> jsval) list"

record QueryConfig =
  qc_name :: "string option"
  qc_text :: string
  qc_values :: "jsval option list option"

record QueryResult =
  result_rows :: "row list"
  rowCount :: nat

record Client =
  respond :: "QueryConfig list \<Rightarrow> error + QueryResult"
  received :: "QueryConfig list"

definition client_query :: "Client \<Rightarrow> QueryConfig \<Rightarrow> (error + QueryResult) \<times> Client" where
  "client_query client q =
     (respond client (received client @ [q]), client\<lparr>received := received client @ [q]\<rparr>)"

section \<open>The result adapter\<close>

definition toRows :: "QueryResult \<Rightarrow> jsval list" where
  "toRows result = map Object (result_rows result)"

text \<open>
  The built-in \<^verbatim>\<open>Object.prototype.hasOwnProperty\<close>, and the call
  \<^verbatim>\<open>row.hasOwnProperty(k)\<close> of the sources, which looks the method up on the row: a
  column named \<^verbatim>\<open>hasOwnProperty\<close> hides the built-in, its value is not a function, and
  the call raises a TypeError.
\<close>

definition hasOwnProperty :: "row \<Rightarrow> string \<Rightarrow> bool" where
  "hasOwnProperty r k = (k \<in> set (map fst r))"

definition call_hasOwnProperty :: "row \<Rightarrow> string \<Rightarrow> error + bool" where
  "call_hasOwnProperty r k =
     (if hasOwnProperty r ''hasOwnProperty''
      then Inl (Error ''row.hasOwnProperty is not a function'')
      else Inr (hasOwnProperty r k))"

definition object_keys :: "row \<Rightarrow> string list" where
  "object_keys r = map fst r"

text \<open>
  \<^verbatim>\<open>toBasicExecResult\<close> returns the count and a closure; the record holds the count and
  what the closure captures, and \<open>getInsertedId\<close> is the closure's body.
\<close>

record BasicExecResult =
  affectedRows :: nat
  captured_result :: QueryResult
  captured_insertTable :: "string option"
  captured_optIdCol :: "string option"

definition toBasicExecResult ::
  "QueryResult \<Rightarrow> string option \<Rightarrow> string option \<Rightarrow> BasicExecResult" where
  "toBasicExecResult result table optIdCol =
     \<lparr>affectedRows = rowCount result, captured_result = result,
      captured_insertTable = table, captured_optIdCol = optIdCol\<rparr>"

definition quote :: string where
  "quote = [CHR 0x27]"

definition unknown_column_message :: "string \<Rightarrow> row \<Rightarrow> string" where
  "unknown_column_message c r =
     ''Cannot get the inserted ID '' @ quote @ c @ quote @ '', available columns are: ''
       @ join '', '' (object_keys r)"

definition unresolved_message :: "row \<Rightarrow> string" where
  "unresolved_message r =
     ''Cannot get the inserted ID, available columns are: '' @ join '', '' (object_keys r)"

definition missing_row_message :: string where
  "missing_row_message =
     ''Cannot get the inserted ID, please append '' @ quote @ ''returning your_column_id''
       @ quote @ '' to your query''"

definition row_count_message :: "nat \<Rightarrow> string" where
  "row_count_message n =
     ''Cannot get the inserted ID, there must be one result row ('' @ show_nat n @ '')''"

definition getInsertedId :: "BasicExecResult \<Rightarrow> string option \<Rightarrow> error + jsval" where
  "getInsertedId r idColumnName' =
     (let rs = result_rows (captured_result r);
          optIdCol = captured_optIdCol r;
          table = captured_insertTable r
      in if length rs \<noteq> 1 then
           (if length rs = 0 then Inl (Error missing_row_message)
            else Inl (Error (row_count_message (length rs))))
         else
           (let row = hd rs;
                col =
                  (if truthy_str idColumnName' then
                     (case call_hasOwnProperty row (to_text idColumnName') of
                        Inl e \<Rightarrow> Inl e
                      | Inr has \<Rightarrow>
                          if \<not> has
                          then Inl (Error (unknown_column_message (to_text idColumnName') row))
                          else Inr idColumnName')
                   else if truthy_str optIdCol then
                     (case call_hasOwnProperty row (to_text optIdCol) of
                        Inl e \<Rightarrow> Inl e
                      | Inr has \<Rightarrow>
                          if \<not> has
                          then Inl (Error (unknown_column_message (to_text optIdCol) row))
                          else Inr optIdCol)
                   else if truthy_str table then
                     (case call_hasOwnProperty row ''id'' of
                        Inl e \<Rightarrow> Inl e
                      | Inr has_id \<Rightarrow>
                          if has_id then Inr (Some ''id'')
                          else
                            (let composed = toLowerCase (to_text table) @ ''_id''
                             in case call_hasOwnProperty row composed of
                                  Inl e \<Rightarrow> Inl e
                                | Inr has_lower \<Rightarrow>
                                    if has_lower then Inr (Some composed)
                                    else
                                      (case toUpperCase composed of
                                         None \<Rightarrow> Inr None
                                       | Some composed' \<Rightarrow>
                                           (case call_hasOwnProperty row composed' of
                                              Inl e \<Rightarrow> Inl e
                                            | Inr has_upper \<Rightarrow>
                                                if has_upper then Inr (Some composed')
                                                else Inr None))))
                   else Inr None)
            in case col of
                 Inl e \<Rightarrow> Inl e
               | Inr c \<Rightarrow>
                   if \<not> truthy_str c then Inl (Error (unresolved_message row))
                   else Inr (prop_get row (to_text c))))"

section \<open>Prepared statements\<close>

text \<open>
  The closure of \<^verbatim>\<open>makeBasicPreparedStatement\<close> captures the options, the SQL text, the
  name and the mutable \<^verbatim>\<open>boundParams\<close>; the client is passed to each method. The
  module variable \<^verbatim>\<open>psSequence\<close> is threaded through the constructor.
\<close>

record PreparedStatement =
  ps_options :: LadcPgOptions
  ps_sql :: string
  psName :: string
  boundParams :: "SqlParameters option"

definition makeBasicPreparedStatement ::
  "nat \<Rightarrow> LadcPgOptions \<Rightarrow> string \<Rightarrow> SqlParameters option \<Rightarrow> PreparedStatement \<times> nat" where
  "makeBasicPreparedStatement psSequence options sql0 initialParams =
     (let psSequence' = psSequence + 1
      in (\<lparr>ps_options = options, ps_sql = sql0,
           psName = ''ladc-ps-'' @ show_nat psSequence',
           boundParams = initialParams\<rparr>, psSequence'))"

text \<open>A key is a number (an integer in the model) or a string.\<close>

datatype key = NumKey int | StrKey string

text \<open>
  The string that names element \<open>n\<close> of an array is the canonical decimal numeral of
  \<open>n\<close>, for \<open>n\<close> below \<open>2\<^sup>3\<^sup>2 - 1\<close>; any other key names a property that is not an
  element. Such a property of an array is not part of the model: nothing in the sources
  reads it.
\<close>

definition is_digit :: "char \<Rightarrow> bool" where
  "is_digit c = (c \<in> set ''0123456789'')"

definition read_nat :: "string \<Rightarrow> nat" where
  "read_nat s = foldl (\<lambda>n c. 10 * n + (of_char c - 48)) 0 s"

definition array_index :: "string \<Rightarrow> nat option" where
  "array_index s =
     (if s \<noteq> [] \<and> list_all is_digit s \<and> (s = ''0'' \<or> hd s \<noteq> CHR ''0'')
         \<and> read_nat s < 4294967295
      then Some (read_nat s) else None)"

text \<open>\<^verbatim>\<open>params[n] = v\<close> for a number \<open>n\<close>.\<close>

fun assign_number :: "SqlParameters \<Rightarrow> int \<Rightarrow> jsval \<Rightarrow> SqlParameters" where
  "assign_number (Positional xs) n v =
     (if 0 \<le> n \<and> n < 4294967295 then Positional (array_set xs (nat n) v) else Positional xs)"
| "assign_number (Named ps) n v = Named (set_prop (show_int n) v ps)"

text \<open>
  \<^verbatim>\<open>params[s] = undefined\<close> for a string \<open>s\<close>. On an array the key \<^verbatim>\<open>length\<close> is the
  length itself, and \<^verbatim>\<open>undefined\<close> is not a length: the assignment raises a RangeError.
\<close>

fun unset_string :: "SqlParameters \<Rightarrow> string \<Rightarrow> error + SqlParameters" where
  "unset_string (Positional xs) s =
     (if s = ''length'' then Inl (Error ''Invalid array length'')
      else case array_index s of
             None \<Rightarrow> Inr (Positional xs)
           | Some i \<Rightarrow> Inr (Positional (array_set xs i Undefined)))"
| "unset_string (Named ps) s = Inr (Named (set_prop s Undefined ps))"

fun bind :: "PreparedStatement \<Rightarrow> key \<Rightarrow> jsval \<Rightarrow> error + PreparedStatement" where
  "bind st (StrKey s) v = Inl (Error ''Named parameters are not implemented'')"
| "bind st (NumKey n) v =
     (let params = (case boundParams st of None \<Rightarrow> Positional [] | Some p \<Rightarrow> p)
      in Inr (st\<lparr>boundParams := Some (assign_number params (n - 1) v)\<rparr>))"

fun unbind :: "PreparedStatement \<Rightarrow> key \<Rightarrow> error + PreparedStatement" where
  "unbind st (NumKey n) =
     (case boundParams st of
        None \<Rightarrow> Inr st
      | Some p \<Rightarrow> Inr (st\<lparr>boundParams := Some (assign_number p n Undefined)\<rparr>))"
| "unbind st (StrKey s) =
     (case boundParams st of
        None \<Rightarrow> Inr st
      | Some p \<Rightarrow>
          (case unset_string p s of
             Inl e \<Rightarrow> Inl e
           | Inr p' \<Rightarrow> Inr (st\<lparr>boundParams := Some p'\<rparr>)))"

text \<open>
  The three executing methods. Each merges the bound parameters with those of the call,
  converts them, and sends one query under the statement's name.
\<close>

definition cursor_disabled :: error where
  "cursor_disabled =
     Error (''Cursor is not available. Maybe use the option '' @ quote @ ''inMemoryCursor''
              @ quote @ ''.'')"

definition ps_exec ::
  "PreparedStatement \<Rightarrow> Client \<Rightarrow> SqlParameters option \<Rightarrow> (error + BasicExecResult) \<times> Client" where
  "ps_exec st client params =
     (let rw = addReturningToInsert (ps_sql st) (ps_options st)
      in case mergeParams (boundParams st) params of
           Inl e \<Rightarrow> (Inl e, client)
         | Inr merged \<Rightarrow>
             (case toPositionalParameters merged of
                Inl e \<Rightarrow> (Inl e, client)
              | Inr vals \<Rightarrow>
                  (case client_query client
                          \<lparr>qc_name = Some (psName st), qc_text = sql rw, qc_values = vals\<rparr> of
                     (Inl e, client') \<Rightarrow> (Inl e, client')
                   | (Inr result, client') \<Rightarrow>
                       (Inr (toBasicExecResult result (insertTable rw) (idColumnName rw)),
                        client'))))"

definition ps_all ::
  "PreparedStatement \<Rightarrow> Client \<Rightarrow> SqlParameters option \<Rightarrow> (error + jsval list) \<times> Client" where
  "ps_all st client params =
     (case mergeParams (boundParams st) params of
        Inl e \<Rightarrow> (Inl e, client)
      | Inr merged \<Rightarrow>
          (case toPositionalParameters merged of
             Inl e \<Rightarrow> (Inl e, client)
           | Inr vals \<Rightarrow>
               (case client_query client
                       \<lparr>qc_name = Some (psName st), qc_text = ps_sql st, qc_values = vals\<rparr> of
                  (Inl e, client') \<Rightarrow> (Inl e, client')
                | (Inr result, client') \<Rightarrow> (Inr (toRows result), client'))))"

definition ps_cursor ::
  "PreparedStatement \<Rightarrow> Client \<Rightarrow> SqlParameters option \<Rightarrow> (error + cursor) \<times> Client" where
  "ps_cursor st client params =
     (if \<not> inMemoryCursor (ps_options st) then (Inl cursor_disabled, client)
      else case mergeParams (boundParams st) params of
             Inl e \<Rightarrow> (Inl e, client)
           | Inr merged \<Rightarrow>
               (case toPositionalParameters merged of
                  Inl e \<Rightarrow> (Inl e, client)
                | Inr vals \<Rightarrow>
                    (case client_query client
                            \<lparr>qc_name = Some (psName st), qc_text = ps_sql st, qc_values = vals\<rparr> of
                       (Inl e, client') \<Rightarrow> (Inl e, client')
                     | (Inr result, client') \<Rightarrow>
                         (Inr (makeInMemoryCursor (Some (toRows result))), client'))))"

section \<open>The connection\<close>

text \<open>The one-shot \<^verbatim>\<open>exec\<close> of \<^verbatim>\<open>toBasicMainConnection\<close>: no statement name.\<close>

definition conn_exec ::
  "LadcPgOptions \<Rightarrow> Client \<Rightarrow> string \<Rightarrow> SqlParameters option \<Rightarrow> (error + BasicExecResult) \<times> Client" where
  "conn_exec options client sql0 params =
     (let rw = addReturningToInsert sql0 options
      in case toPositionalParameters params of
           Inl e \<Rightarrow> (Inl e, client)
         | Inr vals \<Rightarrow>
             (case client_query client \<lparr>qc_name = None, qc_text = sql rw, qc_values = vals\<rparr> of
                (Inl e, client') \<Rightarrow> (Inl e, client')
              | (Inr result, client') \<Rightarrow>
                  (Inr (toBasicExecResult result (insertTable rw) (idColumnName rw)), client')))"

section \<open>Auxiliary notions of the proofs\<close>

text \<open>A pattern without a capture group.\<close>

fun no_capture :: "rx \<Rightarrow> bool" where
  "no_capture (Lit l) = True"
| "no_capture (Star k) = True"
| "no_capture (Plus k) = True"
| "no_capture (Capture r) = False"
| "no_capture (Optional r) = no_capture r"
| "no_capture (Seq rs) = list_all no_capture rs"

text \<open>A captured group that holds a non-empty text.\<close>

definition named :: "string option \<Rightarrow> bool" where
  "named g = (\<exists>t. g = Some t \<and> t \<noteq> [])"

text \<open>What an array holds at a position: \<open>None\<close> at a hole and beyond the end.\<close>

definition slot :: "jsval option list \<Rightarrow> nat \<Rightarrow> jsval option" where
  "slot xs n = (if n < length xs then xs ! n else None)"

text \<open>An engine that answers every query with no row.\<close>

definition no_rows :: "QueryConfig list \<Rightarrow> error + QueryResult" where
  "no_rows qs = Inr \<lparr>result_rows = [], rowCount = 0\<rparr>"

section \<open>The cursor: termination is absorbing\<close>

lemma cursor_next_dropped:
  "rows c = None \<Longrightarrow> cursor_next c = (\<lparr>it_done = True, it_value = Undefined\<rparr>, c)"
  by (simp add: cursor_next_def)

lemma cursor_apply_dropped:
  "rows c = None \<Longrightarrow> cursor_apply opr c = (\<lparr>it_done = True, it_value = Undefined\<rparr>, c)"
  by (cases opr) (simp_all add: cursor_next_def cursor_return_def)

lemma cursor_run_dropped:
  "rows c = None \<Longrightarrow>
   cursor_run oprs c = (replicate (length oprs) \<lparr>it_done = True, it_value = Undefined\<rparr>, c)"
  by (induction oprs) (simp_all add: cursor_apply_dropped)

lemma nexts_dropped:
  "rows c = None \<Longrightarrow> nexts n c = (replicate n \<lparr>it_done = True, it_value = Undefined\<rparr>, c)"
  by (induction n) (simp_all add: cursor_next_dropped)

lemma cursor_next_truthy:
  "k < length xs \<Longrightarrow> truthy (xs ! k) \<Longrightarrow>
   cursor_next \<lparr>rows = Some xs, currentIndex = int k - 1\<rparr> =
     (\<lparr>it_done = False, it_value = xs ! k\<rparr>, \<lparr>rows = Some xs, currentIndex = int k\<rparr>)"
  by (simp add: cursor_next_def array_get_def Let_def)

lemma cursor_next_falsy:
  "k < length xs \<Longrightarrow> \<not> truthy (xs ! k) \<Longrightarrow>
   cursor_next \<lparr>rows = Some xs, currentIndex = int k - 1\<rparr> =
     (\<lparr>it_done = True, it_value = xs ! k\<rparr>, \<lparr>rows = None, currentIndex = int k\<rparr>)"
  by (simp add: cursor_next_def array_get_def Let_def)

lemma cursor_next_past_end:
  "length xs \<le> k \<Longrightarrow>
   cursor_next \<lparr>rows = Some xs, currentIndex = int k - 1\<rparr> =
     (\<lparr>it_done = True, it_value = Undefined\<rparr>, \<lparr>rows = None, currentIndex = int k\<rparr>)"
  by (simp add: cursor_next_def array_get_def Let_def)

lemma cursor_next_done_drops:
  "it_done (fst (cursor_next c)) \<Longrightarrow> rows (snd (cursor_next c)) = None"
  by (cases "rows c") (simp_all add: cursor_next_def Let_def split: if_splits)

lemma nexts_truthy:
  "k + n \<le> length xs \<Longrightarrow> (\<forall>j. k \<le> j \<and> j < k + n \<longrightarrow> truthy (xs ! j)) \<Longrightarrow>
   nexts n \<lparr>rows = Some xs, currentIndex = int k - 1\<rparr> =
     (map (\<lambda>v. \<lparr>it_done = False, it_value = v\<rparr>) (take n (drop k xs)),
      \<lparr>rows = Some xs, currentIndex = int (k + n) - 1\<rparr>)"
proof (induction n arbitrary: k)
  case 0
  then show ?case by simp
next
  case (Suc n)
  have k: "k < length xs" "truthy (xs ! k)" using Suc.prems by auto
  have step: "nexts n \<lparr>rows = Some xs, currentIndex = int (Suc k) - 1\<rparr> =
     (map (\<lambda>v. \<lparr>it_done = False, it_value = v\<rparr>) (take n (drop (Suc k) xs)),
      \<lparr>rows = Some xs, currentIndex = int (Suc k + n) - 1\<rparr>)"
    using Suc.prems by (intro Suc.IH) auto
  have d: "drop k xs = xs ! k # drop (Suc k) xs"
    using k(1) by (simp add: Cons_nth_drop_Suc)
  show ?case
    using step by (simp add: cursor_next_truthy [OF k] d)
qed

lemma nexts_add:
  "nexts (m + n) c = (let (rs, c') = nexts m c; (rs', c'') = nexts n c' in (rs @ rs', c''))"
  by (induction m arbitrary: c) (simp_all add: split_beta Let_def)

text \<open>
  Claim C7. A cursor over two rows \<open>r1\<close>, \<open>r2\<close> (a row is an object, hence truthy) yields
  \<open>r1\<close>, then \<open>r2\<close>, then reports termination with no value and has dropped its list;
  from then on every sequence of \<^verbatim>\<open>next()\<close> and \<^verbatim>\<open>return()\<close> calls reports
  termination with no value at each call and leaves the cursor as it is. The same holds
  of any cursor after a \<^verbatim>\<open>next()\<close> that reported termination, and after a
  \<^verbatim>\<open>return()\<close>, which itself reports termination with no value.
\<close>

theorem cursor_two_rows_then_done_forever:
  assumes "truthy r1" and "truthy r2"
  shows "nexts 3 (makeInMemoryCursor (Some [r1, r2])) =
           ([\<lparr>it_done = False, it_value = r1\<rparr>, \<lparr>it_done = False, it_value = r2\<rparr>,
             \<lparr>it_done = True, it_value = Undefined\<rparr>],
            \<lparr>rows = None, currentIndex = 2\<rparr>)
       \<and> cursor_run oprs \<lparr>rows = None, currentIndex = 2\<rparr> =
           (replicate (length oprs) \<lparr>it_done = True, it_value = Undefined\<rparr>,
            \<lparr>rows = None, currentIndex = 2\<rparr>)
       \<and> (it_done (fst (cursor_next c)) \<longrightarrow>
            cursor_run oprs (snd (cursor_next c)) =
              (replicate (length oprs) \<lparr>it_done = True, it_value = Undefined\<rparr>,
               snd (cursor_next c)))
       \<and> fst (cursor_return c) = \<lparr>it_done = True, it_value = Undefined\<rparr>
       \<and> cursor_run oprs (snd (cursor_return c)) =
           (replicate (length oprs) \<lparr>it_done = True, it_value = Undefined\<rparr>,
            snd (cursor_return c))"
proof -
  have run: "nexts 3 (makeInMemoryCursor (Some [r1, r2])) =
           ([\<lparr>it_done = False, it_value = r1\<rparr>, \<lparr>it_done = False, it_value = r2\<rparr>,
             \<lparr>it_done = True, it_value = Undefined\<rparr>],
            \<lparr>rows = None, currentIndex = 2\<rparr>)"
    using assms
    by (simp add: numeral_3_eq_3 makeInMemoryCursor_def cursor_next_def array_get_def Let_def)
  have after: "cursor_run oprs \<lparr>rows = None, currentIndex = 2\<rparr> =
           (replicate (length oprs) \<lparr>it_done = True, it_value = Undefined\<rparr>,
            \<lparr>rows = None, currentIndex = 2\<rparr>)"
    by (rule cursor_run_dropped) simp
  have exhausted: "it_done (fst (cursor_next c)) \<longrightarrow>
            cursor_run oprs (snd (cursor_next c)) =
              (replicate (length oprs) \<lparr>it_done = True, it_value = Undefined\<rparr>,
               snd (cursor_next c))"
    by (simp add: cursor_next_done_drops cursor_run_dropped)
  have closed: "cursor_run oprs (snd (cursor_return c)) =
           (replicate (length oprs) \<lparr>it_done = True, it_value = Undefined\<rparr>,
            snd (cursor_return c))"
    by (rule cursor_run_dropped) (simp add: cursor_return_def)
  have ret: "fst (cursor_return c) = \<lparr>it_done = True, it_value = Undefined\<rparr>"
    by (simp add: cursor_return_def)
  show ?thesis
    by (intro conjI run after exhausted ret closed)
qed

theorem cursor_two_rows_then_done_forever_witness:
  "nexts 3 (makeInMemoryCursor (Some [Object [(''id'', Number 1)], Object [(''id'', Number 2)]])) =
     ([\<lparr>it_done = False, it_value = Object [(''id'', Number 1)]\<rparr>,
       \<lparr>it_done = False, it_value = Object [(''id'', Number 2)]\<rparr>,
       \<lparr>it_done = True, it_value = Undefined\<rparr>],
      \<lparr>rows = None, currentIndex = 2\<rparr>)
   \<and> cursor_run [Next, Return, Next] \<lparr>rows = None, currentIndex = 2\<rparr> =
       ([\<lparr>it_done = True, it_value = Undefined\<rparr>, \<lparr>it_done = True, it_value = Undefined\<rparr>,
         \<lparr>it_done = True, it_value = Undefined\<rparr>],
        \<lparr>rows = None, currentIndex = 2\<rparr>)
   \<and> cursor_run [Next, Next]
         (snd (cursor_return (makeInMemoryCursor (Some [Object [(''id'', Number 1)]])))) =
       ([\<lparr>it_done = True, it_value = Undefined\<rparr>, \<lparr>it_done = True, it_value = Undefined\<rparr>],
        \<lparr>rows = None, currentIndex = - 1\<rparr>)"
  using
    cursor_two_rows_then_done_forever
      [of "Object [(''id'', Number 1)]" "Object [(''id'', Number 2)]" "[Next, Return, Next]"
          "makeInMemoryCursor (Some [Object [(''id'', Number 1)]])"]
    cursor_two_rows_then_done_forever
      [of "Object [(''id'', Number 1)]" "Object [(''id'', Number 2)]" "[Next, Next]"
          "makeInMemoryCursor (Some [Object [(''id'', Number 1)]])"]
  by (simp add: cursor_return_def makeInMemoryCursor_def
        del: cursor_run.simps nexts.simps)

text \<open>
  Claim C10. When the element at position \<open>i\<close> of the row list is falsy and the elements
  before it are truthy, the first \<open>i\<close> calls of \<^verbatim>\<open>next()\<close> yield those elements, the call
  at position \<open>i\<close> reports termination (with the falsy element as value) and drops the
  list, and every later call reports termination with no value: the elements after
  position \<open>i\<close> are never yielded.
\<close>

theorem cursor_falsy_element_ends_iteration:
  assumes "i < length xs" and "\<not> truthy (xs ! i)" and "\<forall>j<i. truthy (xs ! j)"
  shows "nexts (i + 1 + n) (makeInMemoryCursor (Some xs)) =
     (map (\<lambda>v. \<lparr>it_done = False, it_value = v\<rparr>) (take i xs)
        @ [\<lparr>it_done = True, it_value = xs ! i\<rparr>]
        @ replicate n \<lparr>it_done = True, it_value = Undefined\<rparr>,
      \<lparr>rows = None, currentIndex = int i\<rparr>)"
proof -
  have a: "nexts i (makeInMemoryCursor (Some xs)) =
     (map (\<lambda>v. \<lparr>it_done = False, it_value = v\<rparr>) (take i xs),
      \<lparr>rows = Some xs, currentIndex = int i - 1\<rparr>)"
    using nexts_truthy [of 0 i xs] assms by (simp add: makeInMemoryCursor_def)
  have b: "nexts 1 \<lparr>rows = Some xs, currentIndex = int i - 1\<rparr> =
     ([\<lparr>it_done = True, it_value = xs ! i\<rparr>], \<lparr>rows = None, currentIndex = int i\<rparr>)"
    using assms by (simp add: cursor_next_falsy)
  have c: "nexts n \<lparr>rows = None, currentIndex = int i\<rparr> =
     (replicate n \<lparr>it_done = True, it_value = Undefined\<rparr>, \<lparr>rows = None, currentIndex = int i\<rparr>)"
    by (simp add: nexts_dropped)
  show ?thesis
    by (simp only: nexts_add a b c Let_def split_conv append_assoc)
qed

theorem cursor_falsy_element_ends_iteration_witness:
  "nexts 4 (makeInMemoryCursor
              (Some [Object [(''id'', Number 1)], Null, Object [(''id'', Number 3)]])) =
     ([\<lparr>it_done = False, it_value = Object [(''id'', Number 1)]\<rparr>,
       \<lparr>it_done = True, it_value = Null\<rparr>,
       \<lparr>it_done = True, it_value = Undefined\<rparr>,
       \<lparr>it_done = True, it_value = Undefined\<rparr>],
      \<lparr>rows = None, currentIndex = 1\<rparr>)"
proof -
  have two: "replicate 2 x = [x, x]" for x :: iter_result
    by (simp add: numeral_2_eq_2)
  show ?thesis
    using cursor_falsy_element_ends_iteration
      [of 1 "[Object [(''id'', Number 1)], Null, Object [(''id'', Number 3)]]" 2]
    by (simp add: two eval_nat_numeral del: nexts.simps)
qed

section \<open>Merging parameters\<close>

lemma slot_Nil: "slot [] n = None"
  by (simp add: slot_def)

lemma slot_Cons_0: "slot (x # xs) 0 = x"
  by (simp add: slot_def)

lemma slot_Cons_Suc: "slot (x # xs) (Suc n) = slot xs n"
  by (simp add: slot_def)

lemma slot_array_set: "slot (array_set xs i v) n = (if n = i then Some v else slot xs n)"
  by (auto simp: slot_def array_set_def nth_append)

lemma array_read_slot:
  "array_read xs (int n) = (case slot xs n of None \<Rightarrow> Undefined | Some v \<Rightarrow> v)"
  by (simp add: array_read_def slot_def)

lemma array_read_neg: "j < 0 \<Longrightarrow> array_read xs j = Undefined"
  by (simp add: array_read_def)

lemma length_array_set: "length (array_set xs i v) = max (length xs) (Suc i)"
  by (auto simp: array_set_def)

lemma length_forEach_assign: "length r \<le> length (forEach_assign i p2 r)"
proof (induction i p2 r rule: forEach_assign.induct)
  case (3 i v p2 result)
  then show ?case by (simp add: length_array_set)
qed simp_all

lemma slot_forEach_assign:
  "slot (forEach_assign i p2 r) n =
     (if i \<le> n \<and> slot p2 (n - i) \<noteq> None then slot p2 (n - i) else slot r n)"
proof (induction i p2 r rule: forEach_assign.induct)
  case (1 i result)
  then show ?case by (simp add: slot_Nil)
next
  case (2 i p2 result)
  consider "n < i" | "n = i" | "i < n" by linarith
  then show ?case
  proof cases
    case 1
    then show ?thesis using "2.IH" by simp
  next
    case 2
    then show ?thesis using "2.IH" by (simp add: slot_Cons_0)
  next
    case 3
    then have m: "n - i = Suc (n - Suc i)" "Suc i \<le> n" "i \<le> n" by simp_all
    show ?thesis using "2.IH" by (simp add: m slot_Cons_Suc)
  qed
next
  case (3 i v p2 result)
  consider "n < i" | "n = i" | "i < n" by linarith
  then show ?case
  proof cases
    case 1
    then show ?thesis using "3.IH" by (simp add: slot_array_set)
  next
    case 2
    then show ?thesis using "3.IH" by (simp add: slot_array_set slot_Cons_0)
  next
    case 3
    then have m: "n - i = Suc (n - Suc i)" "Suc i \<le> n" "i \<le> n" "n \<noteq> i" by simp_all
    show ?thesis using "3.IH" by (simp add: m slot_Cons_Suc slot_array_set)
  qed
qed

lemma slot_spread_array:
  "slot (spread_array a) n = (if n < length a then Some (array_read a (int n)) else None)"
  by (simp add: slot_def spread_array_def array_read_def)

lemma merge_positional_read:
  "array_read (forEach_assign 0 b (spread_array a)) j =
     (if 0 \<le> j \<and> nat j < length b \<and> b ! nat j \<noteq> None then array_read b j else array_read a j)"
proof (cases "j < 0")
  case True
  then show ?thesis by (simp add: array_read_neg)
next
  case False
  then obtain n where j: "j = int n" by (metis nat_int not_less int_nat_eq)
  have p: "(n < length b \<and> b ! n \<noteq> None) = (slot b n \<noteq> None)"
    by (simp add: slot_def)
  have a: "array_read a (int n) = (if n < length a then array_read a (int n) else Undefined)"
    by (simp add: array_read_def)
  show ?thesis
    unfolding j
    by (simp only: array_read_slot [of "forEach_assign 0 b (spread_array a)"] array_read_slot [of b]
          slot_forEach_assign slot_spread_array p nat_int)
       (use a in \<open>auto split: option.splits\<close>)
qed

lemma merge_two_one:
  "forEach_assign 0 [Some x] (spread_array [Some a, Some b]) = [Some x, Some b]"
  by (simp add: spread_array_def array_set_def)

lemma map_of_set_prop: "map_of (set_prop k v ps) = (map_of ps)(k \<mapsto> v)"
  by (induction ps) (auto simp: fun_eq_iff)

lemma keys_set_prop: "fst ` set (set_prop k v ps) = insert k (fst ` set ps)"
  by (simp add: dom_map_of_conv_image_fst [symmetric] map_of_set_prop)

lemma distinct_set_prop: "distinct (map fst ps) \<Longrightarrow> distinct (map fst (set_prop k v ps))"
proof (induction ps)
  case Nil
  then show ?case by simp
next
  case (Cons p ps)
  obtain k' v' where p: "p = (k', v')" by (cases p)
  show ?case
  proof (cases "k' = k")
    case True
    then show ?thesis using Cons.prems by (simp add: p)
  next
    case False
    have "k' \<notin> fst ` set (set_prop k v ps)"
      using Cons.prems False by (simp add: keys_set_prop p)
    then show ?thesis using Cons False by (simp add: p)
  qed
qed

lemma foldl_set_prop_map_of:
  "map_of (foldl (\<lambda>obj (k, v). set_prop k v obj) acc xs) = map_of acc ++ map_of (rev xs)"
  by (induction xs arbitrary: acc) (auto simp: map_of_set_prop)

lemma foldl_set_prop_keys:
  "fst ` set (foldl (\<lambda>obj (k, v). set_prop k v obj) acc xs) = fst ` set acc \<union> fst ` set xs"
proof (induction xs arbitrary: acc)
  case Nil
  then show ?case by simp
next
  case (Cons x xs)
  obtain k v where x: "x = (k, v)" by (cases x)
  have "fst ` set (foldl (\<lambda>obj (k, v). set_prop k v obj) (set_prop k v acc) xs) =
        insert k (fst ` set acc) \<union> fst ` set xs"
    by (simp only: Cons.IH keys_set_prop)
  then show ?case by (simp add: x)
qed

lemma foldl_set_prop_distinct:
  "distinct (map fst acc) \<Longrightarrow> distinct (map fst (foldl (\<lambda>obj (k, v). set_prop k v obj) acc xs))"
  by (induction xs arbitrary: acc) (auto simp: distinct_set_prop)

lemma map_of_rev_distinct: "distinct (map fst xs) \<Longrightarrow> map_of (rev xs) = map_of xs"
  by (subst map_of_inject_set) (simp_all add: rev_map [symmetric])

lemma spread_objects_map_of:
  "distinct (map fst a) \<Longrightarrow> distinct (map fst b) \<Longrightarrow>
   map_of (spread_objects a b) = map_of a ++ map_of b"
  by (simp add: spread_objects_def foldl_set_prop_map_of map_of_rev_distinct)

lemma spread_objects_prop_get:
  "distinct (map fst a) \<Longrightarrow> distinct (map fst b) \<Longrightarrow>
   prop_get (spread_objects a b) k = (if hasOwnProperty b k then prop_get b k else prop_get a k)"
proof -
  assume d: "distinct (map fst a)" "distinct (map fst b)"
  have "hasOwnProperty b k \<longleftrightarrow> map_of b k \<noteq> None"
    by (simp add: hasOwnProperty_def map_of_eq_None_iff)
  then show ?thesis
    by (cases "map_of b k") (simp_all add: prop_get_def spread_objects_map_of [OF d] map_add_def)
qed

lemma spread_objects_keys:
  "set (object_keys (spread_objects a b)) = set (object_keys a) \<union> set (object_keys b)"
  by (simp add: object_keys_def spread_objects_def foldl_set_prop_keys image_Un)

lemma spread_objects_distinct: "distinct (object_keys (spread_objects a b))"
  unfolding object_keys_def spread_objects_def by (rule foldl_set_prop_distinct) simp

text \<open>
  Claim C5. When either side is absent, \<open>mergeParams\<close> returns the other side as it is.
  An array merged with an object, in either order, fails with the style mismatch error.
  Two arrays give an array no shorter than the base, which reads at every position as the
  override does where the override has an element, and as the base does elsewhere; so
  \<open>[a, b]\<close> merged with \<open>[x]\<close> is \<open>[x, b]\<close>. Two objects give an object whose keys are
  the union of the keys of both and whose value at a key is the override's where the
  override has the key, and the base's elsewhere.
\<close>

theorem mergeParams_cases:
  "mergeParams None p2 = Inr p2
 \<and> mergeParams p1 None = Inr p1
 \<and> mergeParams (Some (Positional a)) (Some (Named nb)) =
     Inl (Error ''Cannot merge named parameters with positioned parameters'')
 \<and> mergeParams (Some (Named na)) (Some (Positional b)) =
     Inl (Error ''Cannot merge named parameters with positioned parameters'')
 \<and> mergeParams (Some (Positional a)) (Some (Positional b)) =
     Inr (Some (Positional (forEach_assign 0 b (spread_array a))))
 \<and> length a \<le> length (forEach_assign 0 b (spread_array a))
 \<and> (\<forall>j. array_read (forEach_assign 0 b (spread_array a)) j =
          (if 0 \<le> j \<and> nat j < length b \<and> b ! nat j \<noteq> None then array_read b j
           else array_read a j))
 \<and> mergeParams (Some (Positional [Some x, Some y])) (Some (Positional [Some z])) =
     Inr (Some (Positional [Some z, Some y]))
 \<and> mergeParams (Some (Named na)) (Some (Named nb)) = Inr (Some (Named (spread_objects na nb)))
 \<and> set (object_keys (spread_objects na nb)) = set (object_keys na) \<union> set (object_keys nb)
 \<and> distinct (object_keys (spread_objects na nb))
 \<and> (distinct (object_keys na) \<and> distinct (object_keys nb) \<longrightarrow>
      (\<forall>k. prop_get (spread_objects na nb) k =
             (if hasOwnProperty nb k then prop_get nb k else prop_get na k)))"
proof -
  have absent: "mergeParams p1 None = Inr p1"
    by (cases p1) simp_all
  have len: "length a \<le> length (forEach_assign 0 b (spread_array a))"
    using length_forEach_assign [of "spread_array a" 0 b] by (simp add: spread_array_def)
  have named: "distinct (object_keys na) \<and> distinct (object_keys nb) \<longrightarrow>
      (\<forall>k. prop_get (spread_objects na nb) k =
             (if hasOwnProperty nb k then prop_get nb k else prop_get na k))"
    by (simp add: object_keys_def spread_objects_prop_get)
  have pos: "\<forall>j. array_read (forEach_assign 0 b (spread_array a)) j =
          (if 0 \<le> j \<and> nat j < length b \<and> b ! nat j \<noteq> None then array_read b j
           else array_read a j)"
    by (simp only: merge_positional_read simp_thms)
  have two: "mergeParams (Some (Positional [Some x, Some y])) (Some (Positional [Some z])) =
     Inr (Some (Positional [Some z, Some y]))"
    by (simp only: mergeParams.simps merge_two_one)
  show ?thesis
    by (intro conjI absent len named pos two spread_objects_keys spread_objects_distinct
          mergeParams.simps)
qed

theorem mergeParams_cases_witness:
  "mergeParams None (Some (Positional [Some (Number 1)])) = Inr (Some (Positional [Some (Number 1)]))
 \<and> mergeParams (Some (Named [(''a'', Number 1)])) None = Inr (Some (Named [(''a'', Number 1)]))
 \<and> mergeParams (Some (Named [(''a'', Number 1)])) (Some (Positional [Some (Number 1)])) =
     Inl (Error ''Cannot merge named parameters with positioned parameters'')
 \<and> mergeParams (Some (Positional [Some (String ''a''), Some (String ''b'')]))
       (Some (Positional [Some (String ''x'')])) =
     Inr (Some (Positional [Some (String ''x''), Some (String ''b'')]))
 \<and> prop_get (spread_objects [(''a'', Number 1), (''b'', Number 2)] [(''b'', Number 3)]) ''b'' =
     Number 3
 \<and> prop_get (spread_objects [(''a'', Number 1), (''b'', Number 2)] [(''b'', Number 3)]) ''a'' =
     Number 1"
  using mergeParams_cases
    [of "Some (Positional [Some (Number 1)])" "Some (Named [(''a'', Number 1)])"
        "[]" "[(''b'', Number 3)]" "[(''a'', Number 1), (''b'', Number 2)]" "[Some (Number 1)]"
        "String ''a''" "String ''b''" "String ''x''"]
  by (simp add: object_keys_def hasOwnProperty_def prop_get_def)

section \<open>Resolving the inserted id\<close>







text \<open>
  On a row with a column named \<^verbatim>\<open>hasOwnProperty\<close>, naming a column raises the
  TypeError of the call.
\<close>

lemma getInsertedId_shadowed:
  assumes "result_rows (captured_result r) = [row]"
    and "hasOwnProperty row ''hasOwnProperty''"
    and "truthy_str e"
  shows "getInsertedId r e = Inl (Error ''row.hasOwnProperty is not a function'')"
  using assms by (simp add: getInsertedId_def Let_def call_hasOwnProperty_def)



text \<open>The count in a message is the decimal numeral of the number.\<close>

lemma read_nat_snoc: "read_nat (s @ [c]) = 10 * read_nat s + (of_char c - 48)"
  by (simp add: read_nat_def)

lemma of_char_digit_char: "d < 10 \<Longrightarrow> of_char (digit_char d) = 48 + d"
  by (simp add: digit_char_def)

lemma read_nat_show_nat: "read_nat (show_nat n) = n"
proof (induction n rule: show_nat.induct)
  case (1 n)
  show ?case
  proof (cases "n < 10")
    case True
    then show ?thesis
      by (subst show_nat.simps) (simp add: read_nat_def of_char_digit_char)
  next
    case False
    have "read_nat (show_nat n) = 10 * read_nat (show_nat (n div 10)) + (n mod 10)"
      using False by (subst show_nat.simps) (simp add: read_nat_snoc of_char_digit_char)
    then show ?thesis using 1 False by simp
  qed
qed

lemma show_nat_2: "show_nat (Suc (Suc 0)) = ''2''"
  by code_simp



text \<open>
  Claim C4. On a result that does not have exactly one row the resolver fails, whatever
  column the caller names: with no row, the message asks to append a
  \<^verbatim>\<open>returning\<close> clause to the query; with more than one row, the message gives the
  number of rows in decimal.
\<close>

theorem inserted_id_no_single_row:
  "(result_rows (captured_result r) = [] \<longrightarrow>
      getInsertedId r e =
        Inl (Error (''Cannot get the inserted ID, please append '' @ quote
              @ ''returning your_column_id'' @ quote @ '' to your query'')))
 \<and> (1 < length (result_rows (captured_result r)) \<longrightarrow>
      getInsertedId r e =
        Inl (Error (''Cannot get the inserted ID, there must be one result row (''
              @ show_nat (length (result_rows (captured_result r))) @ '')'')))"
  by (simp add: getInsertedId_def Let_def missing_row_message_def row_count_message_def)

theorem inserted_id_no_single_row_witness:
  "getInsertedId (toBasicExecResult \<lparr>result_rows = [], rowCount = 0\<rparr> (Some ''t'') None) None =
     Inl (Error ''Cannot get the inserted ID, please append 'returning your_column_id' to your query'')
 \<and> getInsertedId
     (toBasicExecResult
        \<lparr>result_rows = [[(''id'', Number 1)], [(''id'', Number 2)]], rowCount = 2\<rparr>
        (Some ''t'') None)
     (Some ''id'') =
     Inl (Error ''Cannot get the inserted ID, there must be one result row (2)'')"
  using
    inserted_id_no_single_row
      [of "toBasicExecResult \<lparr>result_rows = [], rowCount = 0\<rparr> (Some ''t'') None" None]
    inserted_id_no_single_row
      [of "toBasicExecResult
             \<lparr>result_rows = [[(''id'', Number 1)], [(''id'', Number 2)]], rowCount = 2\<rparr>
             (Some ''t'') None" "Some ''id''"]
  by (simp add: toBasicExecResult_def quote_def show_nat_2)

section \<open>The rewriter\<close>

lemma star_rests_length: "s' \<in> set (star_rests k s) \<Longrightarrow> length s' \<le> length s"
  by (induction s) (auto split: if_splits)

lemma plus_rests_length: "s' \<in> set (plus_rests k s) \<Longrightarrow> length s' < length s"
  by (cases s) (auto split: if_splits dest: star_rests_length)

lemma foldl_states_invariant:
  assumes "\<And>r st st'. r \<in> set rs \<Longrightarrow> P st \<Longrightarrow> st' \<in> set (rx_match r st) \<Longrightarrow> P st'"
    and "\<forall>st \<in> set sts. P st"
    and "st' \<in> set (foldl (\<lambda>sts r. concat (map (\<lambda>st. rx_match r st) sts)) sts rs)"
  shows "P st'"
  using assms
proof (induction rs arbitrary: sts)
  case Nil
  then show ?case by simp
next
  case (Cons r rs)
  have "\<forall>st \<in> set (concat (map (\<lambda>st. rx_match r st) sts)). P st"
  proof
    fix st2
    assume "st2 \<in> set (concat (map (\<lambda>st. rx_match r st) sts))"
    then obtain st1 where "st1 \<in> set sts" "st2 \<in> set (rx_match r st1)" by auto
    then show "P st2" using Cons.prems(1) [of r st1 st2] Cons.prems(2) by simp
  qed
  then have inv: "\<forall>st \<in> set (concat (map (\<lambda>st. rx_match r st) sts)). P st" .
  show ?case
  proof (rule Cons.IH [of "concat (map (\<lambda>st. rx_match r st) sts)"])
    fix r' st1 st2
    assume "r' \<in> set rs" "P st1" "st2 \<in> set (rx_match r' st1)"
    then show "P st2" using Cons.prems(1) [of r' st1 st2] by simp
  next
    show "\<forall>st \<in> set (concat (map (\<lambda>st. rx_match r st) sts)). P st" by (rule inv)
  next
    show "st' \<in> set (foldl (\<lambda>sts r. concat (map (\<lambda>st. rx_match r st) sts))
                          (concat (map (\<lambda>st. rx_match r st) sts)) rs)"
      using Cons.prems(3) by simp
  qed
qed

lemma no_capture_keeps:
  "no_capture r \<Longrightarrow> st' \<in> set (rx_match r st) \<Longrightarrow> fst st' = fst st"
proof (induction r arbitrary: st st')
  case (Seq rs)
  obtain g s where st: "st = (g, s)" by (cases st)
  have "fst st' = g"
  proof (rule foldl_states_invariant [where P = "\<lambda>st. fst st = g" and rs = rs and sts = "[(g, s)]"])
    fix r st1 st2
    assume "r \<in> set rs" "fst st1 = g" "st2 \<in> set (rx_match r st1)"
    then show "fst st2 = g"
      using Seq.IH [of r st2 st1] Seq.prems(1) by (simp add: list_all_iff)
  next
    show "\<forall>st\<in>set [(g, s)]. fst st = g" by simp
  next
    show "st' \<in> set (foldl (\<lambda>sts r. concat (map (\<lambda>st. rx_match r st) sts)) [(g, s)] rs)"
      using Seq.prems(2) st by simp
  qed
  then show ?case by (simp add: st)
next
  case (Optional r)
  then show ?case by (cases st; cases st') auto
qed (cases st; auto split: option.splits)+

lemma capture_plus_named:
  assumes "st' \<in> set (rx_match (Capture (Plus k)) st)"
  shows "named (fst st')"
proof -
  obtain g s where st: "st = (g, s)" by (cases st)
  from assms obtain s' where s': "s' \<in> set (plus_rests k s)"
    and st': "st' = (Some (take (length s - length s') s), s')"
    by (auto simp: st)
  have "length s' < length s" using s' by (rule plus_rests_length)
  then show ?thesis by (cases s) (simp_all add: st' named_def)
qed

lemma insertRegexp_group:
  assumes "st' \<in> set (rx_match insertRegexp (None, s))"
  shows "named (fst st')"
proof -
  let ?step = "\<lambda>sts r. concat (map (\<lambda>st. rx_match r st) sts)"
  let ?cap = "Capture (Plus \<lparr>negated = True, atoms = [WhiteSpace, Ch CHR ''('']\<rparr>)"
  let ?pre = "[Star ws, Lit ''insert'', Plus ws, Lit ''into'', Plus ws]"
  let ?post = "[Star ws,
     Optional (Seq [Lit ''('', Plus \<lparr>negated = True, atoms = [Ch CHR '')'']\<rparr>, Lit '')'']),
     Star ws, Lit ''values'', Star ws,
     Lit ''('', Star \<lparr>negated = False, atoms = [WhiteSpace, NonWhiteSpace]\<rparr>, Lit '')'',
     Star ws]"
  have split: "insertRegexp = Seq (?pre @ [?cap] @ ?post)"
    by (simp add: insertRegexp_def)
  define mid where "mid = foldl ?step [(None, s)] (?pre @ [?cap])"
  have mid: "\<forall>st \<in> set mid. named (fst st)"
    unfolding mid_def foldl_append
    by (auto simp del: rx_match.simps dest: capture_plus_named)
  have "st' \<in> set (foldl ?step mid ?post)"
    using assms unfolding split mid_def by (simp only: rx_match.simps foldl_append)
  then show ?thesis
  proof (rule foldl_states_invariant [where P = "\<lambda>st. named (fst st)" and rs = ?post and sts = mid, rotated 2])
    fix r st st''
    assume "r \<in> set ?post" "named (fst st)" "st'' \<in> set (rx_match r st)"
    moreover have "no_capture r" using \<open>r \<in> set ?post\<close> by auto
    ultimately show "named (fst st'')" using no_capture_keeps by metis
  next
    show "\<forall>st\<in>set mid. named (fst st)" by (rule mid)
  qed
qed

lemma rx_exec_SomeD:
  "rx_exec r s = Some g \<Longrightarrow> (g, []) \<in> set (rx_match r (None, s))"
proof -
  assume a: "rx_exec r s = Some g"
  then obtain rest others where f: "filter (\<lambda>(g, rest). rest = []) (rx_match r (None, s)) = (g, rest) # others"
    by (auto simp: rx_exec_def split: list.splits)
  then have "(g, rest) \<in> set (filter (\<lambda>(g, rest). rest = []) (rx_match r (None, s)))" by simp
  then show ?thesis by auto
qed

lemma insertRegexp_table:
  "rx_exec insertRegexp s = Some g \<Longrightarrow> \<exists>t. g = Some t \<and> t \<noteq> []"
  using insertRegexp_group [of "(g, [])" s] rx_exec_SomeD [of insertRegexp s g]
  by (simp add: named_def)

lemma match_insert_t: "rx_exec insertRegexp ''insert into t values (1)'' = Some (Some ''t'')"
  by code_simp

lemma match_insert_users:
  "rx_exec insertRegexp ''insert into users values ($1)'' = Some (Some ''users'')"
  by code_simp

lemma no_match_select: "rx_exec insertRegexp ''select 1'' = None"
  by code_simp

lemma no_match_returning:
  "rx_exec insertRegexp ''insert into t values (1) returning id'' = None"
  by code_simp

text \<open>
  Claim C2, as stated, fails in its last case: for a statement that matches, with no
  configured column and without the return-all flag, the text is left as it is but the
  table is recorded all the same.
\<close>

theorem rewriter_records_table_without_returning:
  "rx_exec insertRegexp ''insert into t values (1)'' = Some (Some ''t'')
 \<and> addReturningToInsert ''insert into t values (1)''
       \<lparr>autoincMapping = None, useReturningAll = False, inMemoryCursor = False\<rparr> =
     \<lparr>sql = ''insert into t values (1)'', insertTable = Some ''t'', idColumnName = None\<rparr>
 \<and> insertTable (addReturningToInsert ''insert into t values (1)''
       \<lparr>autoincMapping = None, useReturningAll = False, inMemoryCursor = False\<rparr>) \<noteq> None"
  by (simp add: addReturningToInsert_def match_insert_t)

lemma mapping_get_own: "map_of m t = Some c \<Longrightarrow> mapping_get m t = Some c"
  by (simp add: mapping_get_def)

lemma mapping_get_not_inherited:
  "inherited_text t = None \<Longrightarrow> mapping_get m t = map_of m t"
  by (simp add: mapping_get_def split: option.splits)

lemma inherited_constructor:
  "inherited_text ''constructor'' = Some ''function Object() { [native code] }''"
  by (simp add: inherited_text_def)

lemma inherited_users: "inherited_text ''users'' = None"
  by (simp add: inherited_text_def object_prototype_functions_def)

text \<open>
  Claim C2, amended. For a text that matches \<open>insertRegexp\<close>, group 1 is a non-empty
  table name \<open>t\<close>. If the mapping of the options has an entry that gives \<open>t\<close> a non-empty
  column \<open>c\<close>, the rewriter appends \<^verbatim>\<open> returning c\<close> and records the table and the
  column. For a table without such an entry, and whose name the mapping does not
  inherit from \<^verbatim>\<open>Object.prototype\<close> either: if the return-all flag is set, the rewriter
  appends \<^verbatim>\<open> returning *\<close> and records the table, with no usable column; otherwise it
  leaves the text as it is and still records the table, with no usable column.
\<close>

theorem rewriter_on_match:
  assumes "rx_exec insertRegexp sql0 = Some g"
  shows "\<exists>t. g = Some t \<and> t \<noteq> []
     \<and> (\<forall>m c. autoincMapping options = Some m \<and> map_of m t = Some c \<and> c \<noteq> [] \<longrightarrow>
           addReturningToInsert sql0 options =
             \<lparr>sql = sql0 @ '' returning '' @ c, insertTable = Some t, idColumnName = Some c\<rparr>)
     \<and> (autoincMapping options = None \<and> useReturningAll options \<longrightarrow>
           addReturningToInsert sql0 options =
             \<lparr>sql = sql0 @ '' returning *'', insertTable = Some t, idColumnName = None\<rparr>)
     \<and> (autoincMapping options = None \<and> \<not> useReturningAll options \<longrightarrow>
           addReturningToInsert sql0 options =
             \<lparr>sql = sql0, insertTable = Some t, idColumnName = None\<rparr>)
     \<and> (\<forall>m. autoincMapping options = Some m \<and> \<not> truthy_str (map_of m t)
             \<and> inherited_text t = None \<and> useReturningAll options \<longrightarrow>
           addReturningToInsert sql0 options =
             \<lparr>sql = sql0 @ '' returning *'', insertTable = Some t, idColumnName = map_of m t\<rparr>)
     \<and> (\<forall>m. autoincMapping options = Some m \<and> \<not> truthy_str (map_of m t)
             \<and> inherited_text t = None \<and> \<not> useReturningAll options \<longrightarrow>
           addReturningToInsert sql0 options =
             \<lparr>sql = sql0, insertTable = Some t, idColumnName = map_of m t\<rparr>)"
proof -
  obtain t where t: "g = Some t" "t \<noteq> []"
    using insertRegexp_table [OF assms] by blast
  have own: "\<forall>m c. autoincMapping options = Some m \<and> map_of m t = Some c \<and> c \<noteq> [] \<longrightarrow>
           addReturningToInsert sql0 options =
             \<lparr>sql = sql0 @ '' returning '' @ c, insertTable = Some t, idColumnName = Some c\<rparr>"
    using assms t by (simp add: addReturningToInsert_def Let_def mapping_get_own)
  have n1: "autoincMapping options = None \<and> useReturningAll options \<longrightarrow>
           addReturningToInsert sql0 options =
             \<lparr>sql = sql0 @ '' returning *'', insertTable = Some t, idColumnName = None\<rparr>"
    using assms t by (simp add: addReturningToInsert_def Let_def)
  have n2: "autoincMapping options = None \<and> \<not> useReturningAll options \<longrightarrow>
           addReturningToInsert sql0 options =
             \<lparr>sql = sql0, insertTable = Some t, idColumnName = None\<rparr>"
    using assms t by (simp add: addReturningToInsert_def Let_def)
  have p1: "\<forall>m. autoincMapping options = Some m \<and> \<not> truthy_str (map_of m t)
             \<and> inherited_text t = None \<and> useReturningAll options \<longrightarrow>
           addReturningToInsert sql0 options =
             \<lparr>sql = sql0 @ '' returning *'', insertTable = Some t, idColumnName = map_of m t\<rparr>"
    using assms t by (simp add: addReturningToInsert_def Let_def mapping_get_not_inherited)
  have p2: "\<forall>m. autoincMapping options = Some m \<and> \<not> truthy_str (map_of m t)
             \<and> inherited_text t = None \<and> \<not> useReturningAll options \<longrightarrow>
           addReturningToInsert sql0 options =
             \<lparr>sql = sql0, insertTable = Some t, idColumnName = map_of m t\<rparr>"
    using assms t by (simp add: addReturningToInsert_def Let_def mapping_get_not_inherited)
  show ?thesis
    using t own n1 n2 p1 p2 by blast
qed

theorem rewriter_on_match_witness:
  "addReturningToInsert ''insert into users values ($1)''
     \<lparr>autoincMapping = Some [(''users'', ''id'')], useReturningAll = False, inMemoryCursor = False\<rparr> =
     \<lparr>sql = ''insert into users values ($1) returning id'', insertTable = Some ''users'',
      idColumnName = Some ''id''\<rparr>
 \<and> addReturningToInsert ''insert into users values ($1)''
     \<lparr>autoincMapping = None, useReturningAll = True, inMemoryCursor = False\<rparr> =
     \<lparr>sql = ''insert into users values ($1) returning *'', insertTable = Some ''users'',
      idColumnName = None\<rparr>
 \<and> addReturningToInsert ''insert into users values ($1)''
     \<lparr>autoincMapping = Some [(''t'', ''id'')], useReturningAll = False, inMemoryCursor = False\<rparr> =
     \<lparr>sql = ''insert into users values ($1)'', insertTable = Some ''users'',
      idColumnName = None\<rparr>
 \<and> addReturningToInsert ''insert into users values ($1)''
     \<lparr>autoincMapping = Some [(''t'', ''id'')], useReturningAll = True, inMemoryCursor = False\<rparr> =
     \<lparr>sql = ''insert into users values ($1) returning *'', insertTable = Some ''users'',
      idColumnName = None\<rparr>
 \<and> addReturningToInsert ''insert into users values ($1)''
     \<lparr>autoincMapping = None, useReturningAll = False, inMemoryCursor = False\<rparr> =
     \<lparr>sql = ''insert into users values ($1)'', insertTable = Some ''users'',
      idColumnName = None\<rparr>"
  using
    rewriter_on_match [OF match_insert_users, of "\<lparr>autoincMapping = None, useReturningAll = False, inMemoryCursor = False\<rparr>"]
    rewriter_on_match [OF match_insert_users, of "\<lparr>autoincMapping = Some [(''users'', ''id'')], useReturningAll = False, inMemoryCursor = False\<rparr>"]
    rewriter_on_match [OF match_insert_users, of "\<lparr>autoincMapping = None, useReturningAll = True, inMemoryCursor = False\<rparr>"]
    rewriter_on_match [OF match_insert_users, of "\<lparr>autoincMapping = Some [(''t'', ''id'')], useReturningAll = False, inMemoryCursor = False\<rparr>"]
    rewriter_on_match [OF match_insert_users, of "\<lparr>autoincMapping = Some [(''t'', ''id'')], useReturningAll = True, inMemoryCursor = False\<rparr>"]
  by (simp add: inherited_users)

text \<open>
  A table named as a member of \<^verbatim>\<open>Object.prototype\<close> finds the inherited member in a
  mapping that has no entry for it: the text of the member is appended and recorded.
\<close>

lemma match_insert_constructor:
  "rx_exec insertRegexp ''insert into constructor values (1)'' = Some (Some ''constructor'')"
  by code_simp

lemma rewriter_inherited_member:
  "addReturningToInsert ''insert into constructor values (1)''
     \<lparr>autoincMapping = Some [], useReturningAll = False, inMemoryCursor = False\<rparr> =
     \<lparr>sql = ''insert into constructor values (1) returning function Object() { [native code] }'',
      insertTable = Some ''constructor'',
      idColumnName = Some ''function Object() { [native code] }''\<rparr>"
  by (simp add: addReturningToInsert_def match_insert_constructor mapping_get_def
        inherited_constructor)

text \<open>
  Claim C6. For a text that does not match \<open>insertRegexp\<close> the rewriter returns the text
  as it is, with no table and no column; the one-shot \<^verbatim>\<open>exec\<close> then sends exactly this
  text to the engine, or sends nothing when the parameters are rejected.
\<close>

theorem rewriter_passes_unmatched_through:
  assumes "rx_exec insertRegexp sql0 = None"
  shows "addReturningToInsert sql0 options = \<lparr>sql = sql0, insertTable = None, idColumnName = None\<rparr>
    \<and> (toPositionalParameters params = Inr vals \<longrightarrow>
         received (snd (conn_exec options client sql0 params)) =
           received client @ [\<lparr>qc_name = None, qc_text = sql0, qc_values = vals\<rparr>])
    \<and> (toPositionalParameters params = Inl err \<longrightarrow>
         conn_exec options client sql0 params = (Inl err, client))"
  using assms
  by (auto simp: addReturningToInsert_def conn_exec_def client_query_def Let_def split: sum.splits prod.splits)

theorem rewriter_passes_unmatched_through_witness:
  "addReturningToInsert ''insert into t values (1) returning id''
     \<lparr>autoincMapping = Some [(''t'', ''id'')], useReturningAll = True, inMemoryCursor = False\<rparr> =
     \<lparr>sql = ''insert into t values (1) returning id'', insertTable = None, idColumnName = None\<rparr>
 \<and> received (snd (conn_exec
       \<lparr>autoincMapping = Some [(''t'', ''id'')], useReturningAll = True, inMemoryCursor = False\<rparr>
       \<lparr>respond = no_rows, received = []\<rparr> ''select 1'' (Some (Positional [])))) =
     [\<lparr>qc_name = None, qc_text = ''select 1'', qc_values = Some []\<rparr>]"
  using
    rewriter_passes_unmatched_through [OF no_match_returning, of "\<lparr>autoincMapping = Some [(''t'', ''id'')], useReturningAll = True, inMemoryCursor = False\<rparr>"]
    rewriter_passes_unmatched_through [OF no_match_select, where params = "Some (Positional [])" and vals = "Some []"
       and options = "\<lparr>autoincMapping = Some [(''t'', ''id'')], useReturningAll = True, inMemoryCursor = False\<rparr>"
       and client = "\<lparr>respond = no_rows, received = []\<rparr>"]
  by simp

section \<open>Prepared statements: what is sent to the engine\<close>

lemma array_read_array_set:
  "array_read (array_set xs i v) j = (if j = int i then v else array_read xs j)"
proof (cases "j < 0")
  case True
  then show ?thesis by (simp add: array_read_neg)
next
  case False
  then obtain n where j: "j = int n" by (metis nat_int not_less int_nat_eq)
  show ?thesis unfolding j by (simp add: array_read_slot slot_array_set)
qed

lemma show_nat_1: "show_nat (Suc 0) = ''1''"
  by code_simp

lemma array_index_name: "array_index ''name'' = None"
  by (simp add: array_index_def is_digit_def)

text \<open>
  Claim C3, as stated, fails for \<^verbatim>\<open>all\<close> and \<^verbatim>\<open>cursor\<close>: on a prepared INSERT that
  matches, with the return-all flag set, both send the original text, while the rewriter
  would have appended the returning clause.
\<close>

theorem prepared_all_cursor_do_not_rewrite:
  "map qc_text (received (snd (ps_all
      (fst (makeBasicPreparedStatement 0
         \<lparr>autoincMapping = None, useReturningAll = True, inMemoryCursor = True\<rparr>
         ''insert into t values (1)'' None))
      \<lparr>respond = no_rows, received = []\<rparr> None))) = [''insert into t values (1)'']
 \<and> map qc_text (received (snd (ps_cursor
      (fst (makeBasicPreparedStatement 0
         \<lparr>autoincMapping = None, useReturningAll = True, inMemoryCursor = True\<rparr>
         ''insert into t values (1)'' None))
      \<lparr>respond = no_rows, received = []\<rparr> None))) = [''insert into t values (1)'']
 \<and> sql (addReturningToInsert ''insert into t values (1)''
      \<lparr>autoincMapping = None, useReturningAll = True, inMemoryCursor = True\<rparr>) =
    ''insert into t values (1) returning *''"
  by (simp add: makeBasicPreparedStatement_def ps_all_def ps_cursor_def client_query_def
        no_rows_def addReturningToInsert_def match_insert_t Let_def)

text \<open>
  Claim C3, amended. When the bound parameters and those of the call merge into an array
  (or are both absent), each of \<^verbatim>\<open>exec\<close>, \<^verbatim>\<open>all\<close> and \<^verbatim>\<open>cursor\<close> sends the engine one
  query under the statement's name, with the merged values. \<^verbatim>\<open>exec\<close> sends the text
  the rewriter returns for the statement's SQL; \<^verbatim>\<open>all\<close> and \<^verbatim>\<open>cursor\<close> send the
  statement's SQL as it is, and \<^verbatim>\<open>cursor\<close> does so only when the option
  \<^verbatim>\<open>inMemoryCursor\<close> is set: without it, it fails and sends nothing. Where both sides are
  arrays, the merged values read as the call's wherever the call has an element, and as
  the bound ones elsewhere.
\<close>

theorem prepared_statement_queries:
  assumes "mergeParams (boundParams st) params = Inr merged"
    and "toPositionalParameters merged = Inr vals"
  shows
   "received (snd (ps_exec st client params)) =
      received client @
        [\<lparr>qc_name = Some (psName st),
          qc_text = sql (addReturningToInsert (ps_sql st) (ps_options st)),
          qc_values = vals\<rparr>]
  \<and> received (snd (ps_all st client params)) =
      received client @
        [\<lparr>qc_name = Some (psName st), qc_text = ps_sql st, qc_values = vals\<rparr>]
  \<and> (inMemoryCursor (ps_options st) \<longrightarrow>
      received (snd (ps_cursor st client params)) =
        received client @
          [\<lparr>qc_name = Some (psName st), qc_text = ps_sql st, qc_values = vals\<rparr>])
  \<and> (\<not> inMemoryCursor (ps_options st) \<longrightarrow>
      ps_cursor st client params = (Inl cursor_disabled, client))
  \<and> (\<forall>a b. boundParams st = Some (Positional a) \<and> params = Some (Positional b) \<longrightarrow>
      (\<exists>vs. vals = Some vs \<and>
        (\<forall>j. array_read vs j =
           (if 0 \<le> j \<and> nat j < length b \<and> b ! nat j \<noteq> None then array_read b j
            else array_read a j))))"
proof -
  have q: "received (snd (client_query client q)) = received client @ [q]" for q
    by (simp add: client_query_def)
  have e: "received (snd (ps_exec st client params)) =
      received client @
        [\<lparr>qc_name = Some (psName st),
          qc_text = sql (addReturningToInsert (ps_sql st) (ps_options st)),
          qc_values = vals\<rparr>]"
    using assms by (simp add: ps_exec_def Let_def client_query_def split: sum.splits)
  have a: "received (snd (ps_all st client params)) =
      received client @
        [\<lparr>qc_name = Some (psName st), qc_text = ps_sql st, qc_values = vals\<rparr>]"
    using assms by (simp add: ps_all_def client_query_def split: sum.splits)
  have c: "inMemoryCursor (ps_options st) \<longrightarrow>
      received (snd (ps_cursor st client params)) =
        received client @
          [\<lparr>qc_name = Some (psName st), qc_text = ps_sql st, qc_values = vals\<rparr>]"
    using assms by (simp add: ps_cursor_def client_query_def split: sum.splits)
  have d: "\<not> inMemoryCursor (ps_options st) \<longrightarrow>
      ps_cursor st client params = (Inl cursor_disabled, client)"
    by (simp add: ps_cursor_def)
  have m: "\<forall>a b. boundParams st = Some (Positional a) \<and> params = Some (Positional b) \<longrightarrow>
      (\<exists>vs. vals = Some vs \<and>
        (\<forall>j. array_read vs j =
           (if 0 \<le> j \<and> nat j < length b \<and> b ! nat j \<noteq> None then array_read b j
            else array_read a j)))"
  proof (intro allI impI)
    fix a b
    assume "boundParams st = Some (Positional a) \<and> params = Some (Positional b)"
    then have "vals = Some (forEach_assign 0 b (spread_array a))"
      using assms by auto
    then show "\<exists>vs. vals = Some vs \<and>
        (\<forall>j. array_read vs j =
           (if 0 \<le> j \<and> nat j < length b \<and> b ! nat j \<noteq> None then array_read b j
            else array_read a j))"
      by (simp only: merge_positional_read simp_thms option.inject ex_simps)
  qed
  show ?thesis by (intro conjI e a c d m)
qed

theorem prepared_statement_queries_witness:
  "received (snd (ps_exec
      (fst (makeBasicPreparedStatement 0
         \<lparr>autoincMapping = None, useReturningAll = True, inMemoryCursor = True\<rparr>
         ''insert into t values (1)'' (Some (Positional [Some (Number 1), Some (Number 2)]))))
      \<lparr>respond = no_rows, received = []\<rparr> (Some (Positional [Some (Number 9)])))) =
     [\<lparr>qc_name = Some ''ladc-ps-1'', qc_text = ''insert into t values (1) returning *'',
       qc_values = Some [Some (Number 9), Some (Number 2)]\<rparr>]
 \<and> received (snd (ps_all
      (fst (makeBasicPreparedStatement 0
         \<lparr>autoincMapping = None, useReturningAll = True, inMemoryCursor = True\<rparr>
         ''insert into t values (1)'' (Some (Positional [Some (Number 1), Some (Number 2)]))))
      \<lparr>respond = no_rows, received = []\<rparr> (Some (Positional [Some (Number 9)])))) =
     [\<lparr>qc_name = Some ''ladc-ps-1'', qc_text = ''insert into t values (1)'',
       qc_values = Some [Some (Number 9), Some (Number 2)]\<rparr>]
 \<and> received (snd (ps_cursor
      (fst (makeBasicPreparedStatement 0
         \<lparr>autoincMapping = None, useReturningAll = True, inMemoryCursor = True\<rparr>
         ''insert into t values (1)'' (Some (Positional [Some (Number 1), Some (Number 2)]))))
      \<lparr>respond = no_rows, received = []\<rparr> (Some (Positional [Some (Number 9)])))) =
     [\<lparr>qc_name = Some ''ladc-ps-1'', qc_text = ''insert into t values (1)'',
       qc_values = Some [Some (Number 9), Some (Number 2)]\<rparr>]
 \<and> ps_cursor
      (fst (makeBasicPreparedStatement 0
         \<lparr>autoincMapping = None, useReturningAll = True, inMemoryCursor = False\<rparr>
         ''insert into t values (1)'' None))
      \<lparr>respond = no_rows, received = []\<rparr> None =
     (Inl (Error ''Cursor is not available. Maybe use the option 'inMemoryCursor'.''),
      \<lparr>respond = no_rows, received = []\<rparr>)"
  using
    prepared_statement_queries [where st = "fst (makeBasicPreparedStatement 0
         \<lparr>autoincMapping = None, useReturningAll = True, inMemoryCursor = False\<rparr>
         ''insert into t values (1)'' None)"
      and params = None and merged = None and vals = None
      and client = "\<lparr>respond = no_rows, received = []\<rparr>"]
    prepared_statement_queries [where st = "fst (makeBasicPreparedStatement 0
         \<lparr>autoincMapping = None, useReturningAll = True, inMemoryCursor = True\<rparr>
         ''insert into t values (1)'' (Some (Positional [Some (Number 1), Some (Number 2)])))"
      and params = "Some (Positional [Some (Number 9)])"
      and merged = "Some (Positional [Some (Number 9), Some (Number 2)])"
      and vals = "Some [Some (Number 9), Some (Number 2)]"
      and client = "\<lparr>respond = no_rows, received = []\<rparr>"]
  by (simp add: makeBasicPreparedStatement_def spread_array_def array_set_def show_nat_1
        addReturningToInsert_def match_insert_t Let_def cursor_disabled_def quote_def)

section \<open>Prepared statements: binding\<close>

lemma named_parameters_rejected:
  "toPositionalParameters (Some (Named b)) = Inl (Error ''Named parameters are not implemented'')
 \<and> bind st (StrKey s) v = Inl (Error ''Named parameters are not implemented'')"
  by simp

lemma unbind_never_not_implemented:
  "unbind st k \<noteq> Inl (Error ''Named parameters are not implemented'')"
proof (cases k)
  case (NumKey n)
  then show ?thesis by (simp split: option.splits)
next
  case (StrKey s)
  show ?thesis
  proof (cases "boundParams st")
    case None
    then show ?thesis by (simp add: StrKey)
  next
    case (Some p)
    then show ?thesis
      by (cases p) (auto simp: StrKey split: option.splits sum.splits if_splits)
  qed
qed

text \<open>
  Claim C8 at a failing input. \<^verbatim>\<open>unbind\<close> with a string key does not fail: on bound
  positional parameters \<open>[1]\<close> the key \<^verbatim>\<open>name\<close> is accepted and the statement is left
  as it is; on bound named parameters the property is set to \<^verbatim>\<open>undefined\<close>.
\<close>

theorem unbind_accepts_string_key:
  "unbind \<lparr>ps_options = \<lparr>autoincMapping = None, useReturningAll = False, inMemoryCursor = False\<rparr>,
           ps_sql = ''select $1'', psName = ''ladc-ps-1'',
           boundParams = Some (Positional [Some (Number 1)])\<rparr> (StrKey ''name'') =
     Inr \<lparr>ps_options = \<lparr>autoincMapping = None, useReturningAll = False, inMemoryCursor = False\<rparr>,
           ps_sql = ''select $1'', psName = ''ladc-ps-1'',
           boundParams = Some (Positional [Some (Number 1)])\<rparr>
 \<and> unbind \<lparr>ps_options = \<lparr>autoincMapping = None, useReturningAll = False, inMemoryCursor = False\<rparr>,
           ps_sql = ''select $1'', psName = ''ladc-ps-1'',
           boundParams = Some (Named [(''name'', Number 1)])\<rparr> (StrKey ''name'') =
     Inr \<lparr>ps_options = \<lparr>autoincMapping = None, useReturningAll = False, inMemoryCursor = False\<rparr>,
           ps_sql = ''select $1'', psName = ''ladc-ps-1'',
           boundParams = Some (Named [(''name'', Undefined)])\<rparr>"
  by (simp add: array_index_name)

text \<open>
  Claim C9. \<^verbatim>\<open>bind\<close> with a position \<open>p\<close> from 1 on allocates the array when no
  parameters are bound, and stores the value in slot \<open>p - 1\<close>, leaving every other slot
  as it reads. \<^verbatim>\<open>unbind\<close> with a numeric key \<open>k\<close> from 0 on stores \<^verbatim>\<open>undefined\<close> in
  slot \<open>k\<close> itself, not \<open>k - 1\<close>, of an existing array, and does nothing when no
  parameters are bound.
\<close>

theorem bind_unbind_positions:
  "(1 \<le> p \<and> p \<le> 4294967295 \<longrightarrow>
      (boundParams st = None \<longrightarrow>
         bind st (NumKey p) v =
           Inr (st\<lparr>boundParams := Some (Positional (replicate (nat (p - 1)) None @ [Some v]))\<rparr>))
    \<and> (\<forall>xs. boundParams st = Some (Positional xs) \<longrightarrow>
         bind st (NumKey p) v =
           Inr (st\<lparr>boundParams := Some (Positional (array_set xs (nat (p - 1)) v))\<rparr>)
         \<and> (\<forall>j. array_read (array_set xs (nat (p - 1)) v) j =
                  (if j = p - 1 then v else array_read xs j))))
 \<and> (0 \<le> k \<and> k < 4294967295 \<longrightarrow>
      (\<forall>xs. boundParams st = Some (Positional xs) \<longrightarrow>
         unbind st (NumKey k) =
           Inr (st\<lparr>boundParams := Some (Positional (array_set xs (nat k) Undefined))\<rparr>)
         \<and> (\<forall>j. array_read (array_set xs (nat k) Undefined) j =
                  (if j = k then Undefined else array_read xs j))))
 \<and> (boundParams st = None \<longrightarrow> unbind st key = Inr st)"
proof -
  have u: "boundParams st = None \<longrightarrow> unbind st key = Inr st"
    by (cases key) simp_all
  have b0: "1 \<le> p \<and> p \<le> 4294967295 \<longrightarrow> boundParams st = None \<longrightarrow>
         bind st (NumKey p) v =
           Inr (st\<lparr>boundParams := Some (Positional (replicate (nat (p - 1)) None @ [Some v]))\<rparr>)"
    by (simp add: array_set_def)
  have b1: "1 \<le> p \<and> p \<le> 4294967295 \<longrightarrow>
      (\<forall>xs. boundParams st = Some (Positional xs) \<longrightarrow>
         bind st (NumKey p) v =
           Inr (st\<lparr>boundParams := Some (Positional (array_set xs (nat (p - 1)) v))\<rparr>)
         \<and> (\<forall>j. array_read (array_set xs (nat (p - 1)) v) j =
                  (if j = p - 1 then v else array_read xs j)))"
    by (simp add: array_read_array_set)
  have u1: "0 \<le> k \<and> k < 4294967295 \<longrightarrow>
      (\<forall>xs. boundParams st = Some (Positional xs) \<longrightarrow>
         unbind st (NumKey k) =
           Inr (st\<lparr>boundParams := Some (Positional (array_set xs (nat k) Undefined))\<rparr>)
         \<and> (\<forall>j. array_read (array_set xs (nat k) Undefined) j =
                  (if j = k then Undefined else array_read xs j)))"
    by (simp add: array_read_array_set)
  show ?thesis
    using b0 b1 u1 u by blast
qed

theorem bind_unbind_positions_witness:
  "bind \<lparr>ps_options = \<lparr>autoincMapping = None, useReturningAll = False, inMemoryCursor = False\<rparr>,
         ps_sql = ''select $1, $2'', psName = ''ladc-ps-1'', boundParams = None\<rparr>
     (NumKey 2) (Number 7) =
   Inr \<lparr>ps_options = \<lparr>autoincMapping = None, useReturningAll = False, inMemoryCursor = False\<rparr>,
         ps_sql = ''select $1, $2'', psName = ''ladc-ps-1'',
         boundParams = Some (Positional [None, Some (Number 7)])\<rparr>
 \<and> unbind \<lparr>ps_options = \<lparr>autoincMapping = None, useReturningAll = False, inMemoryCursor = False\<rparr>,
         ps_sql = ''select $1, $2'', psName = ''ladc-ps-1'',
         boundParams = Some (Positional [None, Some (Number 7)])\<rparr>
     (NumKey 2) =
   Inr \<lparr>ps_options = \<lparr>autoincMapping = None, useReturningAll = False, inMemoryCursor = False\<rparr>,
         ps_sql = ''select $1, $2'', psName = ''ladc-ps-1'',
         boundParams = Some (Positional [None, Some (Number 7), Some Undefined])\<rparr>
 \<and> unbind \<lparr>ps_options = \<lparr>autoincMapping = None, useReturningAll = False, inMemoryCursor = False\<rparr>,
         ps_sql = ''select $1, $2'', psName = ''ladc-ps-1'', boundParams = None\<rparr>
     (NumKey 2) =
   Inr \<lparr>ps_options = \<lparr>autoincMapping = None, useReturningAll = False, inMemoryCursor = False\<rparr>,
         ps_sql = ''select $1, $2'', psName = ''ladc-ps-1'', boundParams = None\<rparr>
 \<and> bind \<lparr>ps_options = \<lparr>autoincMapping = None, useReturningAll = False, inMemoryCursor = False\<rparr>,
         ps_sql = ''select $1, $2'', psName = ''ladc-ps-1'',
         boundParams = Some (Positional [None, Some (Number 7)])\<rparr>
     (NumKey 1) (Number 5) =
   Inr \<lparr>ps_options = \<lparr>autoincMapping = None, useReturningAll = False, inMemoryCursor = False\<rparr>,
         ps_sql = ''select $1, $2'', psName = ''ladc-ps-1'',
         boundParams = Some (Positional [Some (Number 5), Some (Number 7)])\<rparr>"
  using
    bind_unbind_positions [where p = 1 and v = "Number 5" and k = 0 and key = "NumKey 0"
        and st = "\<lparr>ps_options = \<lparr>autoincMapping = None, useReturningAll = False, inMemoryCursor = False\<rparr>,
         ps_sql = ''select $1, $2'', psName = ''ladc-ps-1'',
         boundParams = Some (Positional [None, Some (Number 7)])\<rparr>"]
    bind_unbind_positions [where p = 2 and v = "Number 7" and k = 2 and key = "NumKey 2"
        and st = "\<lparr>ps_options = \<lparr>autoincMapping = None, useReturningAll = False, inMemoryCursor = False\<rparr>,
         ps_sql = ''select $1, $2'', psName = ''ladc-ps-1'', boundParams = None\<rparr>"]
    bind_unbind_positions [where p = 2 and v = "Number 7" and k = 2 and key = "NumKey 2"
        and st = "\<lparr>ps_options = \<lparr>autoincMapping = None, useReturningAll = False, inMemoryCursor = False\<rparr>,
         ps_sql = ''select $1, $2'', psName = ''ladc-ps-1'',
         boundParams = Some (Positional [None, Some (Number 7)])\<rparr>"]
  by (simp add: array_set_def del: bind.simps unbind.simps)

end
